theory Spec2Isabelle
  imports Main "HOL-Library.Word"
begin

unbundle bit_operations_syntax

section \<open>Strings\<close>

text \<open>
  A JavaScript string is modelled as a \<^typ>\<open>string\<close>: the list of its code units, each
  below 256. \<open>s.slice(0, n)\<close> is \<^term>\<open>take n s\<close>, and a string is falsy exactly when
  it is empty. Where the code units themselves matter, in the content that is hashed, a
  string is the list of its UTF-16 code units.
\<close>

section \<open>Source provenance (core/source.ts, plugins/providers/types.ts)\<close>

text \<open>
  The tagged union \<open>Source\<close> / \<open>SourceMetadata\<close>: a github source carries
  \<open>repository\<close>, \<open>commit_sha\<close> and \<open>ref\<close>, in this order; a local source carries its
  \<open>path\<close> and an optional \<open>commit_sha\<close>.
\<close>

datatype Source =
    Github string string string
  | Local string "string option"

text \<open>\<open>if (source.commit_sha)\<close>: an absent sha and the empty string are both falsy.\<close>

fun truthy_opt :: "string option \<Rightarrow> bool" where
  "truthy_opt None = False"
| "truthy_opt (Some s) = (s \<noteq> [])"

text \<open>\<open>formatSourceString\<close> of core/source.ts.\<close>

fun formatSourceString :: "Source \<Rightarrow> string" where
  "formatSourceString (Github repo sha r) = ''github:'' @ repo @ ''@'' @ take 7 sha"
| "formatSourceString (Local p sha) =
     (if truthy_opt sha then ''local:'' @ p @ ''@'' @ take 7 (the sha)
      else ''local:'' @ p)"

text \<open>\<open>formatSourceString\<close> of plugins/providers/types.ts.\<close>

fun formatSourceString_providers :: "Source \<Rightarrow> string" where
  "formatSourceString_providers src =
     (case src of
        Github repo sha r \<Rightarrow> (let sha7 = take 7 sha in ''github:'' @ repo @ ''@'' @ sha7)
      | Local p sha \<Rightarrow>
          (case sha of
             Some s \<Rightarrow> if s \<noteq> [] then ''local:'' @ p @ ''@'' @ take 7 s else ''local:'' @ p
           | None \<Rightarrow> ''local:'' @ p))"

section \<open>Target registry (plugins/targets, core/targets.ts)\<close>

record TargetConfig =
  dir :: string
  instructionsFile :: "string option"
  instructionsContent :: "string option"

record TargetCapabilities =
  skills :: bool
  subAgents :: bool
  hooks :: bool
  fileReferences :: bool
  cap_instructionsFile :: bool

record TargetAgent =
  name :: string
  config :: TargetConfig
  capabilities :: TargetCapabilities

definition CLAUDE_CONFIG :: TargetConfig where
  "CLAUDE_CONFIG = \<lparr> dir = ''.claude'', instructionsFile = Some ''CLAUDE.md'',
     instructionsContent = Some ''@../AGENTS.md'' \<rparr>"

definition CLAUDE_CAPABILITIES :: TargetCapabilities where
  "CLAUDE_CAPABILITIES = \<lparr> skills = True, subAgents = True, hooks = True,
     fileReferences = True, cap_instructionsFile = True \<rparr>"

definition claudeTarget :: TargetAgent where
  "claudeTarget = \<lparr> name = ''claude'', config = CLAUDE_CONFIG,
     capabilities = CLAUDE_CAPABILITIES \<rparr>"

definition CODEX_CONFIG :: TargetConfig where
  "CODEX_CONFIG = \<lparr> dir = ''.codex'', instructionsFile = None,
     instructionsContent = None \<rparr>"

definition CODEX_CAPABILITIES :: TargetCapabilities where
  "CODEX_CAPABILITIES = \<lparr> skills = True, subAgents = False, hooks = True,
     fileReferences = False, cap_instructionsFile = False \<rparr>"

definition codexTarget :: TargetAgent where
  "codexTarget = \<lparr> name = ''codex'', config = CODEX_CONFIG,
     capabilities = CODEX_CAPABILITIES \<rparr>"

text \<open>
  The older table of the same registry: \<open>SUPPORTED_TARGETS\<close> and \<open>TARGET_CONFIGS\<close>, a
  record keyed by the closed type \<open>Target\<close>, whose entries have a directory and an optional
  instructions file only.
\<close>

datatype Target = claude | codex

record TargetConfig0 =
  dir0 :: string
  instructionsFile0 :: "string option"

definition SUPPORTED_TARGETS :: "Target list" where
  "SUPPORTED_TARGETS = [claude, codex]"

fun TARGET_CONFIGS :: "Target \<Rightarrow> TargetConfig0" where
  "TARGET_CONFIGS claude = \<lparr> dir0 = ''.claude'', instructionsFile0 = Some ''CLAUDE.md'' \<rparr>"
| "TARGET_CONFIGS codex = \<lparr> dir0 = ''.codex'', instructionsFile0 = None \<rparr>"

definition getTargetConfig :: "Target \<Rightarrow> TargetConfig0" where
  "getTargetConfig target = TARGET_CONFIGS target"

section \<open>Paths and errors\<close>

text \<open>
  A resolved path is the list of its components below the root: \<open>path.dirname\<close> drops the
  last one, \<open>path.join\<close> appends, and the root is the empty list.
\<close>

type_synonym path = "string list"

definition show_path :: "path \<Rightarrow> string" where
  "show_path p = (if p = [] then ''/'' else concat (map (\<lambda>c. ''/'' @ c) p))"

text \<open>
  The exceptions the code meets: a file-system error with its \<open>code\<close>, the
  \<open>SyntaxError\<close> of \<open>JSON.parse\<close>, the \<open>ZodError\<close> of a schema, and a plain
  \<open>new Error(message)\<close>. Only the first has a \<open>code\<close> property.
\<close>

datatype error =
    ErrnoException string
  | SyntaxError string
  | ZodError string
  | Error string

fun error_code :: "error \<Rightarrow> string option" where
  "error_code (ErrnoException c) = Some c"
| "error_code _ = None"

text \<open>\<open>s.split(sep)\<close> for a separator of one character.\<close>

fun split_char :: "char \<Rightarrow> string \<Rightarrow> string list" where
  "split_char sep [] = [[]]"
| "split_char sep (c # cs) =
     (if c = sep then [] # split_char sep cs
      else (case split_char sep cs of
              w # ws \<Rightarrow> (c # w) # ws
            | [] \<Rightarrow> [[c]]))"

section \<open>SHA-256 (node:crypto) and \<open>hashContent\<close> (core/lockfile.ts)\<close>

text \<open>
  \<open>createHash("sha256").update(content).digest("hex")\<close> hashes the UTF-8 encoding of the
  string and prints the digest in lower-case hexadecimal. The hash follows FIPS 180-4.
\<close>

type_synonym byte = "8 word"
type_synonym word32 = "32 word"

text \<open>
  A string enters the hash as the sequence of its UTF-16 code units. \<open>units\<close> gives the
  code units of a string whose code units are all below 256.
\<close>

type_synonym code_unit = "16 word"

definition units :: "string \<Rightarrow> code_unit list" where
  "units s = map (\<lambda>c. of_nat (of_char c)) s"

text \<open>The UTF-8 bytes of a code point of up to 21 bits.\<close>

definition utf8_scalar :: "word32 \<Rightarrow> byte list" where
  "utf8_scalar cp =
     (if cp < 0x80 then [ucast cp]
      else if cp < 0x800 then
        [0xC0 OR ucast (drop_bit 6 cp), 0x80 OR ucast (cp AND 0x3F)]
      else if cp < 0x10000 then
        [0xE0 OR ucast (drop_bit 12 cp), 0x80 OR ucast (drop_bit 6 cp AND 0x3F),
         0x80 OR ucast (cp AND 0x3F)]
      else
        [0xF0 OR ucast (drop_bit 18 cp), 0x80 OR ucast (drop_bit 12 cp AND 0x3F),
         0x80 OR ucast (drop_bit 6 cp AND 0x3F), 0x80 OR ucast (cp AND 0x3F)])"

definition is_high_surrogate :: "code_unit \<Rightarrow> bool" where
  "is_high_surrogate u = (0xD800 \<le> u \<and> u < 0xDC00)"

definition is_low_surrogate :: "code_unit \<Rightarrow> bool" where
  "is_low_surrogate u = (0xDC00 \<le> u \<and> u < 0xE000)"

text \<open>
  The encoding of a string: a surrogate pair is one code point of four bytes, and a
  surrogate without its partner is written as the replacement character U+FFFD.
\<close>

fun utf8_encode :: "code_unit list \<Rightarrow> byte list" where
  "utf8_encode [] = []"
| "utf8_encode [u] =
     (if is_high_surrogate u \<or> is_low_surrogate u then utf8_scalar 0xFFFD
      else utf8_scalar (ucast u))"
| "utf8_encode (u # l # rest) =
     (if is_high_surrogate u \<and> is_low_surrogate l
      then utf8_scalar (0x10000 + push_bit 10 (ucast (u - 0xD800)) + ucast (l - 0xDC00))
           @ utf8_encode rest
      else if is_high_surrogate u \<or> is_low_surrogate u
      then utf8_scalar 0xFFFD @ utf8_encode (l # rest)
      else utf8_scalar (ucast u) @ utf8_encode (l # rest))"

definition sha256_K :: "word32 list" where
  "sha256_K =
   [0x428A2F98, 0x71374491, 0xB5C0FBCF, 0xE9B5DBA5, 0x3956C25B, 0x59F111F1, 0x923F82A4, 0xAB1C5ED5,
    0xD807AA98, 0x12835B01, 0x243185BE, 0x550C7DC3, 0x72BE5D74, 0x80DEB1FE, 0x9BDC06A7, 0xC19BF174,
    0xE49B69C1, 0xEFBE4786, 0x0FC19DC6, 0x240CA1CC, 0x2DE92C6F, 0x4A7484AA, 0x5CB0A9DC, 0x76F988DA,
    0x983E5152, 0xA831C66D, 0xB00327C8, 0xBF597FC7, 0xC6E00BF3, 0xD5A79147, 0x06CA6351, 0x14292967,
    0x27B70A85, 0x2E1B2138, 0x4D2C6DFC, 0x53380D13, 0x650A7354, 0x766A0ABB, 0x81C2C92E, 0x92722C85,
    0xA2BFE8A1, 0xA81A664B, 0xC24B8B70, 0xC76C51A3, 0xD192E819, 0xD6990624, 0xF40E3585, 0x106AA070,
    0x19A4C116, 0x1E376C08, 0x2748774C, 0x34B0BCB5, 0x391C0CB3, 0x4ED8AA4A, 0x5B9CCA4F, 0x682E6FF3,
    0x748F82EE, 0x78A5636F, 0x84C87814, 0x8CC70208, 0x90BEFFFA, 0xA4506CEB, 0xBEF9A3F7, 0xC67178F2]"

definition sha256_H0 :: "word32 list" where
  "sha256_H0 = [0x6A09E667, 0xBB67AE85, 0x3C6EF372, 0xA54FF53A,
                0x510E527F, 0x9B05688C, 0x1F83D9AB, 0x5BE0CD19]"

definition Ch :: "word32 \<Rightarrow> word32 \<Rightarrow> word32 \<Rightarrow> word32" where
  "Ch x y z = (x AND y) XOR (NOT x AND z)"

definition Maj :: "word32 \<Rightarrow> word32 \<Rightarrow> word32 \<Rightarrow> word32" where
  "Maj x y z = (x AND y) XOR (x AND z) XOR (y AND z)"

definition Sigma0 :: "word32 \<Rightarrow> word32" where
  "Sigma0 x = word_rotr 2 x XOR word_rotr 13 x XOR word_rotr 22 x"

definition Sigma1 :: "word32 \<Rightarrow> word32" where
  "Sigma1 x = word_rotr 6 x XOR word_rotr 11 x XOR word_rotr 25 x"

definition sigma0 :: "word32 \<Rightarrow> word32" where
  "sigma0 x = word_rotr 7 x XOR word_rotr 18 x XOR drop_bit 3 x"

definition sigma1 :: "word32 \<Rightarrow> word32" where
  "sigma1 x = word_rotr 17 x XOR word_rotr 19 x XOR drop_bit 10 x"

text \<open>Padding: the byte 0x80, zero bytes up to 56 modulo 64, the bit length on 64 bits.\<close>

definition be64 :: "64 word \<Rightarrow> byte list" where
  "be64 n = map (\<lambda>i. ucast (drop_bit (8 * (7 - i)) n)) [0..<8]"

definition sha256_pad :: "byte list \<Rightarrow> byte list" where
  "sha256_pad m =
     m @ [0x80] @ replicate ((119 - length m mod 64) mod 64) 0 @ be64 (8 * of_nat (length m))"

definition be32 :: "byte list \<Rightarrow> word32" where
  "be32 bs = foldl (\<lambda>acc b. push_bit 8 acc OR ucast b) 0 bs"

fun chunks :: "nat \<Rightarrow> 'a list \<Rightarrow> 'a list list" where
  "chunks n xs = (if n = 0 \<or> xs = [] then [] else take n xs # chunks n (drop n xs))"

declare chunks.simps [simp del]

text \<open>The message schedule: the 16 words of the block, extended to 64.\<close>

fun schedule :: "nat \<Rightarrow> word32 list \<Rightarrow> word32 list" where
  "schedule 0 w = w"
| "schedule (Suc k) w =
     (let t = length w in
      schedule k
        (w @ [sigma1 (w ! (t - 2)) + w ! (t - 7) + sigma0 (w ! (t - 15)) + w ! (t - 16)]))"

fun sha256_round :: "word32 list \<Rightarrow> word32 \<times> word32 \<Rightarrow> word32 list" where
  "sha256_round [a, b, c, d, e, f, g, h] (k, w) =
     (let t1 = h + Sigma1 e + Ch e f g + k + w;
          t2 = Sigma0 a + Maj a b c
      in [t1 + t2, a, b, c, d + t1, e, f, g])"
| "sha256_round s _ = s"

definition sha256_block :: "word32 list \<Rightarrow> byte list \<Rightarrow> word32 list" where
  "sha256_block hs block =
     (let w = schedule 48 (map be32 (chunks 4 block));
          s = foldl sha256_round hs (zip sha256_K w)
      in map2 (+) hs s)"

definition sha256 :: "byte list \<Rightarrow> word32 list" where
  "sha256 m = foldl sha256_block sha256_H0 (chunks 64 (sha256_pad m))"

definition hex_alphabet :: string where
  "hex_alphabet = ''0123456789abcdef''"

definition hex_digit :: "nat \<Rightarrow> char" where
  "hex_digit n = hex_alphabet ! (n mod 16)"

definition hex32 :: "word32 \<Rightarrow> string" where
  "hex32 w = map (\<lambda>i. hex_digit (unat (drop_bit (4 * (7 - i)) w AND 0xF))) [0..<8]"

definition sha256_hex :: "code_unit list \<Rightarrow> string" where
  "sha256_hex s = concat (map hex32 (sha256 (utf8_encode s)))"

text \<open>\<open>hashContent\<close>: the prefix \<open>sha256:\<close> and \<open>hash.slice(0, 12)\<close>.\<close>

definition hashContent :: "code_unit list \<Rightarrow> string" where
  "hashContent content = (let hash = sha256_hex content in ''sha256:'' @ take 12 hash)"


section \<open>Lockfile store (core/lockfile.ts)\<close>

record AgentsMdEntry =
  global_block_hash :: string
  merged :: bool

record LockfileContent =
  agents_md :: AgentsMdEntry
  lock_skills :: "string list"
  lock_targets :: "string list"
  marker_prefix :: "string option"

record Lockfile =
  lf_version :: string
  pinned_version :: "string option"
  synced_at :: string
  lf_source :: Source
  lf_content :: LockfileContent
  cli_version :: string

text \<open>
  What the store reads from its host: \<open>fs.readFile\<close> (a content, or the code of the
  file-system error), \<open>JSON.parse\<close> (a value of the type \<open>'j\<close>, or the message of its
  \<open>SyntaxError\<close>), \<open>LockfileSchema.parse\<close> (a lockfile, or the message of its
  \<open>ZodError\<close>) and the build-time constant \<open>__BUILD_VERSION__\<close>, which may be undefined.
\<close>

record 'j lockfile_host =
  readFile :: "path \<Rightarrow> string + string"
  JSON_parse :: "string \<Rightarrow> string + 'j"
  LockfileSchema_parse :: "'j \<Rightarrow> string + Lockfile"
  BUILD_VERSION :: "string option"

definition CONFIG_DIR :: string where
  "CONFIG_DIR = ''.agent-conf''"

definition LOCKFILE_NAME :: string where
  "LOCKFILE_NAME = ''lockfile.json''"

definition getLockfilePath :: "path \<Rightarrow> path" where
  "getLockfilePath targetDir = targetDir @ [CONFIG_DIR, LOCKFILE_NAME]"

text \<open>The body of the \<open>try\<close> block of \<open>readLockfile\<close>: the first exception ends it.\<close>

definition readLockfile_try :: "'j lockfile_host \<Rightarrow> path \<Rightarrow> error + Lockfile" where
  "readLockfile_try host lockfilePath =
     (case readFile host lockfilePath of
        Inl code \<Rightarrow> Inl (ErrnoException code)
      | Inr content \<Rightarrow>
          (case JSON_parse host content of
             Inl msg \<Rightarrow> Inl (SyntaxError msg)
           | Inr parsed \<Rightarrow>
               (case LockfileSchema_parse host parsed of
                  Inl msg \<Rightarrow> Inl (ZodError msg)
                | Inr lockfile \<Rightarrow> Inr lockfile)))"

definition readLockfile :: "'j lockfile_host \<Rightarrow> path \<Rightarrow> error + Lockfile option" where
  "readLockfile host targetDir =
     (let lockfilePath = getLockfilePath targetDir in
      case readLockfile_try host lockfilePath of
        Inr lockfile \<Rightarrow> Inr (Some lockfile)
      | Inl err \<Rightarrow> if error_code err = Some ''ENOENT'' then Inr None else Inl err)"

definition getCliVersion :: "'j lockfile_host \<Rightarrow> string" where
  "getCliVersion host = (case BUILD_VERSION host of Some v \<Rightarrow> v | None \<Rightarrow> ''0.0.0'')"

record VersionMismatch =
  currentVersion :: string
  lockfileVersion :: string

text \<open>
  \<open>Number\<close> is the host's conversion of a string to a number; it is a parameter, with
  \<open>None\<close> for \<open>NaN\<close>. \<open>(xs[i] || 0)\<close> is 0 when the index is out of range, when the
  number is \<open>NaN\<close> and when it is 0.
\<close>

definition or0 :: "'n::{linorder,zero} option list \<Rightarrow> nat \<Rightarrow> 'n" where
  "or0 xs i =
     (if i < length xs then (case xs ! i of None \<Rightarrow> 0 | Some v \<Rightarrow> v) else 0)"

text \<open>The loop \<open>for (let i = 0; i < 3; i++)\<close>, with \<open>n\<close> the number of rounds left;
  \<open>lockfileV\<close> stands for the array \<open>lockfile_\<close>.\<close>

fun version_loop ::
  "'n::{linorder,zero} option list \<Rightarrow> 'n option list \<Rightarrow> VersionMismatch \<Rightarrow> nat \<Rightarrow> nat \<Rightarrow>
   VersionMismatch option" where
  "version_loop lockfileV current mismatch i 0 = None"
| "version_loop lockfileV current mismatch i (Suc n) =
     (if or0 lockfileV i > or0 current i then Some mismatch
      else if or0 current i > or0 lockfileV i then None
      else version_loop lockfileV current mismatch (Suc i) n)"

definition checkCliVersionMismatch ::
  "(string \<Rightarrow> 'n::{linorder,zero} option) \<Rightarrow> 'j lockfile_host \<Rightarrow> path \<Rightarrow>
   error + VersionMismatch option" where
  "checkCliVersionMismatch Number host targetDir =
     (case readLockfile host targetDir of
        Inl err \<Rightarrow> Inl err
      | Inr None \<Rightarrow> Inr None
      | Inr (Some lockfile) \<Rightarrow>
          (let currentVersion = getCliVersion host;
               lockfileVersion = cli_version lockfile
           in if currentVersion = [] \<or> lockfileVersion = [] then Inr None
              else
                (let current = map Number (split_char CHR ''.'' currentVersion);
                     lockfileV = map Number (split_char CHR ''.'' lockfileVersion)
                 in Inr (version_loop lockfileV current
                      \<lparr> currentVersion = currentVersion, lockfileVersion = lockfileVersion \<rparr>
                      0 3))))"

text \<open>
  The comparison as the specification words it: the triplet (major, minor, patch) of a
  version, a missing component counting as 0, and the strict lexicographic order on
  triplets.
\<close>

definition spec_triplet ::
  "(string \<Rightarrow> 'n::{linorder,zero} option) \<Rightarrow> string \<Rightarrow> 'n \<times> 'n \<times> 'n" where
  "spec_triplet Number v =
     (let parts = map Number (split_char CHR ''.'' v)
      in (or0 parts 0, or0 parts 1, or0 parts 2))"

fun spec_newer :: "'n::linorder \<times> 'n \<times> 'n \<Rightarrow> 'n \<times> 'n \<times> 'n \<Rightarrow> bool" where
  "spec_newer (a, b, c) (a', b', c') =
     (a > a' \<or> (a = a' \<and> (b > b' \<or> (b = b' \<and> c > c'))))"

text \<open>A conversion for strings of decimal digits, and a host, to run the check on.\<close>

definition Number_digits :: "string \<Rightarrow> nat option" where
  "Number_digits s =
     (if list_all (\<lambda>c. c \<in> set ''0123456789'') s
      then Some (foldl (\<lambda>n c. 10 * n + (of_char c - 48)) 0 s)
      else None)"

definition sample_lockfile :: "string \<Rightarrow> Lockfile" where
  "sample_lockfile v =
     \<lparr> lf_version = ''1'', pinned_version = None, synced_at = ''2024-01-01T00:00:00.000Z'',
       lf_source = Local ''/some/path'' None,
       lf_content = \<lparr> agents_md = \<lparr> global_block_hash = ''sha256:abc123def456'', merged = True \<rparr>,
                   lock_skills = [''test-skill''], lock_targets = [''claude''],
                   marker_prefix = None \<rparr>,
       cli_version = v \<rparr>"

text \<open>
  The sample host: a JSON value is the text between the braces of the content, and the
  schema accepts a non-empty value \<open>v\<close> as the lockfile written by the tool version \<open>v\<close>.
  It holds a lockfile under \<open>/repo\<close>, a truncated one under \<open>/bad\<close>, one without fields
  under \<open>/empty\<close> and an unreadable one under \<open>/locked\<close>; the running tool is 1.9.3.
\<close>

definition sample_host :: "string lockfile_host" where
  "sample_host =
     \<lparr> readFile = (\<lambda>p. if p = [''repo'', ''.agent-conf'', ''lockfile.json'']
                         then Inr ''{1.10.0}''
                         else if p = [''bad'', ''.agent-conf'', ''lockfile.json'']
                         then Inr ''{''
                         else if p = [''empty'', ''.agent-conf'', ''lockfile.json'']
                         then Inr ''{}''
                         else if p = [''locked'', ''.agent-conf'', ''lockfile.json'']
                         then Inl ''EACCES''
                         else Inl ''ENOENT''),
       JSON_parse = (\<lambda>s. if 2 \<le> length s \<and> hd s = CHR ''{'' \<and> last s = CHR ''}''
                          then Inr (butlast (tl s))
                          else Inl ''Unexpected end of JSON input''),
       LockfileSchema_parse = (\<lambda>j. if j \<noteq> [] then Inr (sample_lockfile j)
                                   else Inl ''Required''),
       BUILD_VERSION = Some ''1.9.3'' \<rparr>"

section \<open>Source resolver (core/source.ts)\<close>

record ResolvedSource =
  rs_source :: Source
  basePath :: path
  agentsMdPath :: path
  skillsPath :: path

record LocalSourceOptions =
  opt_path :: "string option"

text \<open>
  \<open>simpleGit(dir).log({ maxCount: 1 })\<close> either throws (no repository, no git) or returns
  a log whose \<open>latest\<close> entry, when there is one, carries the hash.
\<close>

datatype log_result = LogThrows | LogLatest "string option"

text \<open>
  What the resolver reads from its host: \<open>path.resolve\<close>, \<open>process.cwd()\<close>, whether
  \<open>fs.stat\<close> finds a directory, whether \<open>fs.access\<close> resolves, and the git log.
\<close>

record resolver_host =
  path_resolve :: "string \<Rightarrow> path"
  process_cwd :: path
  stat_isDirectory :: "path \<Rightarrow> bool"
  fs_access :: "path \<Rightarrow> bool"
  git_log :: "path \<Rightarrow> log_result"

text \<open>
  \<open>isCanonicalRepo\<close>: the git remote check returns \<open>true\<close> when it succeeds and falls
  through to \<open>return true\<close> when it does not, so the structure check decides.
\<close>

definition isCanonicalRepo :: "resolver_host \<Rightarrow> path \<Rightarrow> bool" where
  "isCanonicalRepo host d =
     (if \<not> stat_isDirectory host d then False
      else
        (let instructionsPath = d @ [''instructions'', ''AGENTS.md''];
             skillsPath = d @ [''skills''];
             instructionsExists = fs_access host instructionsPath;
             skillsExists = fs_access host skillsPath
         in if \<not> instructionsExists \<or> \<not> skillsExists then False else True))"

text \<open>The first loop of \<open>findCanonicalRepo\<close>: walk up from \<open>checkDir\<close> to the root.\<close>

function search_upward :: "resolver_host \<Rightarrow> path \<Rightarrow> path option" where
  "search_upward host checkDir =
     (if checkDir = [] then None
      else if isCanonicalRepo host checkDir then Some checkDir
      else search_upward host (butlast checkDir))"
  by pat_completeness auto
termination
  by (relation "measure (\<lambda>(host, checkDir). length checkDir)") auto

text \<open>The second loop: at each level, try the sibling directory \<open>agent-conf\<close>.\<close>

function search_sibling :: "resolver_host \<Rightarrow> path \<Rightarrow> path option" where
  "search_sibling host currentDir =
     (if currentDir = [] then None
      else
        (let parentDir = butlast currentDir;
             siblingCanonicalRepo = parentDir @ [''agent-conf'']
         in if isCanonicalRepo host siblingCanonicalRepo then Some siblingCanonicalRepo
            else search_sibling host parentDir))"
  by pat_completeness auto
termination
  by (relation "measure (\<lambda>(host, currentDir). length currentDir)") auto

definition findCanonicalRepo :: "resolver_host \<Rightarrow> path \<Rightarrow> error + path" where
  "findCanonicalRepo host startDir =
     (case search_upward host startDir of
        Some found \<Rightarrow> Inr found
      | None \<Rightarrow>
          (case search_sibling host startDir of
             Some found \<Rightarrow> Inr found
           | None \<Rightarrow> Inl (Error (''Could not find canonical repository. '' @
               ''Please specify --local <path> or run from within the canonical repo.''))))"

definition validateCanonicalRepo :: "resolver_host \<Rightarrow> path \<Rightarrow> error + unit" where
  "validateCanonicalRepo host base =
     (let agentsMd = base @ [''instructions'', ''AGENTS.md''];
          skillsDir = base @ [''skills''];
          agentsMdExists = fs_access host agentsMd;
          skillsExists = fs_access host skillsDir
      in if \<not> agentsMdExists
         then Inl (Error (''Invalid canonical repository: missing instructions/AGENTS.md at ''
                @ show_path base))
         else if \<not> skillsExists
         then Inl (Error (''Invalid canonical repository: missing skills/ directory at ''
                @ show_path base))
         else Inr ())"

text \<open>
  \<open>resolveLocalSource\<close>. An empty \<open>options.path\<close> is falsy and takes the search branch.
  \<open>simpleGit(basePath)\<close> stands outside the \<open>try\<close>; it only rejects a base directory that
  does not exist, which the validation before it excludes.
\<close>

definition resolveLocalSource :: "resolver_host \<Rightarrow> LocalSourceOptions \<Rightarrow> error + ResolvedSource" where
  "resolveLocalSource host options =
     (case (case opt_path options of
              Some p \<Rightarrow> if p \<noteq> [] then Inr (path_resolve host p)
                        else findCanonicalRepo host (process_cwd host)
            | None \<Rightarrow> findCanonicalRepo host (process_cwd host)) of
        Inl err \<Rightarrow> Inl err
      | Inr base \<Rightarrow>
          (case validateCanonicalRepo host base of
             Inl err \<Rightarrow> Inl err
           | Inr _ \<Rightarrow>
               (let commitSha = (case git_log host base of
                                   LogThrows \<Rightarrow> None
                                 | LogLatest latest \<Rightarrow> latest)
                in Inr \<lparr> rs_source = Local (show_path base) commitSha,
                         basePath = base,
                         agentsMdPath = base @ [''instructions'', ''AGENTS.md''],
                         skillsPath = base @ [''skills''] \<rparr>)))"

text \<open>A host with one canonical repository, at \<open>/canon\<close>, that is not a git repository.\<close>

definition sample_resolver_host :: resolver_host where
  "sample_resolver_host =
     \<lparr> path_resolve = (\<lambda>p. [p]),
       process_cwd = [''work''],
       stat_isDirectory = (\<lambda>p. p \<in> {[''canon''], [''canon'', ''skills''], [''work'']}),
       fs_access = (\<lambda>p. p \<in> {[''canon''], [''canon'', ''skills''],
                              [''canon'', ''instructions'', ''AGENTS.md''], [''work'']}),
       git_log = (\<lambda>p. LogThrows) \<rparr>"

section \<open>JavaScript objects\<close>

text \<open>
  A plain object is the list of its own properties in the order of \<open>Object.entries\<close>: the
  keys that are array indices first, in ascending numeric order, then the other keys in
  the order of their creation.
\<close>

type_synonym 'v obj = "(string \<times> 'v) list"

definition obj_keys :: "'v obj \<Rightarrow> string list" where
  "obj_keys obj = map fst obj"

definition obj_get :: "'v obj \<Rightarrow> string \<Rightarrow> 'v option" where
  "obj_get obj k = map_of obj k"

abbreviation NL :: char where "NL \<equiv> CHR 0x0A"
abbreviation CR :: char where "CR \<equiv> CHR 0x0D"
abbreviation DQ :: char where "DQ \<equiv> CHR 0x22"
abbreviation SQ :: char where "SQ \<equiv> CHR 0x27"

text \<open>Character classes are read off the code unit \<open>of_char c\<close>.\<close>

definition in_range :: "char \<Rightarrow> char \<Rightarrow> char \<Rightarrow> bool" where
  "in_range lo hi c = ((of_char lo :: nat) \<le> of_char c \<and> (of_char c :: nat) \<le> of_char hi)"

definition is_digit :: "char \<Rightarrow> bool" where
  "is_digit c = in_range CHR ''0'' CHR ''9'' c"

definition decimal_value :: "string \<Rightarrow> nat" where
  "decimal_value k = foldl (\<lambda>n c. 10 * n + (of_char c - 48)) 0 k"

text \<open>An array index: the canonical decimal form of an integer below \<open>2^32 - 1\<close>.\<close>

definition is_array_index :: "string \<Rightarrow> bool" where
  "is_array_index k =
     (k \<noteq> [] \<and> list_all is_digit k \<and> (k = ''0'' \<or> hd k \<noteq> CHR ''0'') \<and>
      length k \<le> 10 \<and> decimal_value k < 4294967295)"

fun insert_index :: "string \<Rightarrow> 'v \<Rightarrow> 'v obj \<Rightarrow> 'v obj" where
  "insert_index k v [] = [(k, v)]"
| "insert_index k v ((k', v') # rest) =
     (if is_array_index k' \<and> decimal_value k' < decimal_value k
      then (k', v') # insert_index k v rest
      else (k, v) # (k', v') # rest)"

text \<open>
  \<open>obj[k] = v\<close> on the own properties of a plain object: an existing property keeps its
  place, a new array index goes to its place among the indices, any other new key goes
  last. An assignment to \<open>__proto__\<close> runs the setter of \<open>Object.prototype\<close> and creates
  no own property; what the setter does to the prototype of a frontmatter object is the
  matter of \<open>assign\<close> below.
\<close>

definition obj_set :: "string \<Rightarrow> 'v \<Rightarrow> 'v obj \<Rightarrow> 'v obj" where
  "obj_set k v obj =
     (if k = ''__proto__'' then obj
      else if k \<in> set (obj_keys obj)
      then map (\<lambda>(k', v'). if k' = k then (k', v) else (k', v')) obj
      else if is_array_index k then insert_index k v obj
      else obj @ [(k, v)])"

text \<open>
  The lists that are the entries of an object built by assignments: no key twice, no
  own \<open>__proto__\<close>, the array indices first and ascending.
\<close>

fun indices_first :: "string list \<Rightarrow> bool" where
  "indices_first [] = True"
| "indices_first [k] = True"
| "indices_first (k # k' # ks) =
     ((is_array_index k' \<longrightarrow> is_array_index k \<and> decimal_value k < decimal_value k') \<and>
      indices_first (k' # ks))"

definition js_object :: "'v obj \<Rightarrow> bool" where
  "js_object obj =
     (distinct (obj_keys obj) \<and> ''__proto__'' \<notin> set (obj_keys obj) \<and>
      indices_first (obj_keys obj))"

function show_nat :: "nat \<Rightarrow> string" where
  "show_nat n =
     (if n < 10 then [char_of (48 + n)]
      else show_nat (n div 10) @ [char_of (48 + n mod 10)])"
  by pat_completeness auto
termination
  by (relation "measure id") auto

declare show_nat.simps [simp del]

text \<open>The keys \<open>0, 1, ...\<close> of the elements of an array or the characters of a string.\<close>

definition indexed :: "'v list \<Rightarrow> 'v obj" where
  "indexed xs = zip (map show_nat [0..<length xs]) xs"

section \<open>Agent files (core/agents.ts)\<close>

text \<open>
  A frontmatter value is a string, an array or a nested object. The elements of an array
  and the values of a nested object enter this module only through \<open>String(item)\<close>; they
  are kept as that string.
\<close>

datatype fm_value = VStr string | VArr "string list" | VObj "string obj"

text \<open>
  The prototype of a frontmatter object: \<open>Object.prototype\<close>, unless an assignment to
  \<open>__proto__\<close> has installed an array or a nested object in its place.
\<close>

datatype prototype =
    Object_prototype
  | Array_installed "string list"
  | Object_installed "string obj"

text \<open>A frontmatter object: its own properties and its prototype.\<close>

record AgentFrontmatter =
  own :: "fm_value obj"
  proto :: prototype

definition empty_frontmatter :: AgentFrontmatter where
  "empty_frontmatter = \<lparr> own = [], proto = Object_prototype \<rparr>"

text \<open>
  \<open>frontmatter[key] = value\<close>. The setter of \<open>__proto__\<close> installs an array or an object
  as the prototype and ignores a string.
\<close>

definition assign :: "string \<Rightarrow> fm_value \<Rightarrow> AgentFrontmatter \<Rightarrow> AgentFrontmatter" where
  "assign key v fm =
     (if key = ''__proto__'' then
        (case v of
           VStr _ \<Rightarrow> fm
         | VArr items \<Rightarrow> fm\<lparr> proto := Array_installed items \<rparr>
         | VObj m \<Rightarrow> fm\<lparr> proto := Object_installed m \<rparr>)
      else fm\<lparr> own := obj_set key v (own fm) \<rparr>)"

text \<open>
  \<open>frontmatter[key]\<close> read: the own property, or else the property of the installed
  prototype. The module reads \<open>name\<close>, \<open>description\<close> and \<open>metadata\<close>, which neither
  \<open>Object.prototype\<close> nor \<open>Array.prototype\<close> has; an installed array has its elements
  under their indices.
\<close>

definition inherited :: "prototype \<Rightarrow> string \<Rightarrow> fm_value option" where
  "inherited p key =
     (case p of
        Object_prototype \<Rightarrow> None
      | Array_installed items \<Rightarrow>
          (if is_array_index key \<and> decimal_value key < length items
           then Some (VStr (items ! decimal_value key)) else None)
      | Object_installed m \<Rightarrow> map_option VStr (obj_get m key))"

definition fm_get :: "AgentFrontmatter \<Rightarrow> string \<Rightarrow> fm_value option" where
  "fm_get fm key =
     (case obj_get (own fm) key of
        Some v \<Rightarrow> Some v
      | None \<Rightarrow> inherited (proto fm) key)"

record Agent =
  relativePath :: string
  rawContent :: string
  frontmatter :: "AgentFrontmatter option"
  body :: string

definition is_space :: "char \<Rightarrow> bool" where
  "is_space c = (c \<in> set [CHR 0x09, CHR 0x0A, CHR 0x0B, CHR 0x0C, CHR 0x0D, CHR 0x20, CHR 0xA0])"

definition is_word :: "char \<Rightarrow> bool" where
  "is_word c =
     (in_range CHR ''a'' CHR ''z'' c \<or> in_range CHR ''A'' CHR ''Z'' c \<or>
      is_digit c \<or> c = CHR ''_'')"

definition needsQuoting :: "string \<Rightarrow> bool" where
  "needsQuoting v =
     (CHR '':'' \<in> set v \<or> CHR ''#'' \<in> set v \<or> CHR ''@'' \<in> set v \<or>
      v = ''true'' \<or> v = ''false'' \<or> (v \<noteq> [] \<and> list_all is_digit v))"

definition quoted :: "string \<Rightarrow> string" where
  "quoted v = (if needsQuoting v then [DQ] @ v @ [DQ] else v)"

text \<open>
  The lines \<open>serializeFrontmatter\<close> pushes for one entry of \<open>Object.entries\<close>, which
  lists the own properties only.
\<close>

fun entry_lines :: "string \<times> fm_value \<Rightarrow> string list" where
  "entry_lines (key, VArr items) =
     (key @ '':'') # map (\<lambda>item. ''  - '' @ [DQ] @ item @ [DQ]) items"
| "entry_lines (key, VObj nested) =
     (key @ '':'') # map (\<lambda>(nestedKey, nestedValue). ''  '' @ nestedKey @ '': '' @ quoted nestedValue)
                        nested"
| "entry_lines (key, VStr strValue) = [key @ '': '' @ quoted strValue]"

text \<open>\<open>lines.join("\n")\<close>.\<close>

fun join_lines :: "string list \<Rightarrow> string" where
  "join_lines [] = []"
| "join_lines [l] = l"
| "join_lines (l # ls) = l @ [NL] @ join_lines ls"

definition serializeFrontmatter :: "fm_value obj \<Rightarrow> string" where
  "serializeFrontmatter fm = join_lines (concat (map entry_lines fm))"

text \<open>
  \<open>{ ...(existingFrontmatter.metadata || {}) }\<close>: the own properties of the value spread.
  An absent value and the empty string are falsy; an array and a non-empty string spread
  their elements under the keys \<open>0, 1, ...\<close>.
\<close>

fun spread :: "fm_value option \<Rightarrow> string obj" where
  "spread None = []"
| "spread (Some (VObj m)) = m"
| "spread (Some (VArr items)) = indexed items"
| "spread (Some (VStr s)) = indexed (map (\<lambda>c. [c]) s)"

text \<open>\<open>existingFrontmatter.name || ""\<close>.\<close>

fun or_empty :: "fm_value option \<Rightarrow> fm_value" where
  "or_empty None = VStr []"
| "or_empty (Some v) = v"

text \<open>
  The object \<open>newFrontmatter\<close> that \<open>addAgentMetadata\<close> builds, given the content hash:
  \<open>name\<close> and \<open>description\<close>, then every own field but \<open>metadata\<close> copied by assignment,
  then \<open>metadata\<close>. Only its own properties are read afterwards.
\<close>

definition newMetadata :: "AgentFrontmatter \<Rightarrow> string \<Rightarrow> string \<Rightarrow> string obj" where
  "newMetadata existingFrontmatter metadataPrefix contentHash =
     (let managedKey = metadataPrefix @ ''_managed'';
          hashKey = metadataPrefix @ ''_content_hash'';
          existingMetadata = spread (fm_get existingFrontmatter ''metadata'')
      in obj_set hashKey contentHash (obj_set managedKey ''true'' existingMetadata))"

definition copy_field :: "fm_value obj \<Rightarrow> string \<times> fm_value \<Rightarrow> fm_value obj" where
  "copy_field acc kv = (if fst kv \<noteq> ''metadata'' then obj_set (fst kv) (snd kv) acc else acc)"

definition newFrontmatter :: "AgentFrontmatter \<Rightarrow> string \<Rightarrow> string \<Rightarrow> fm_value obj" where
  "newFrontmatter existingFrontmatter metadataPrefix contentHash =
     (let initial = [(''name'', or_empty (fm_get existingFrontmatter ''name'')),
                     (''description'', or_empty (fm_get existingFrontmatter ''description''))];
          copied = foldl copy_field initial (own existingFrontmatter)
      in obj_set ''metadata'' (VObj (newMetadata existingFrontmatter metadataPrefix contentHash))
           copied)"

text \<open>
  \<open>addAgentMetadata\<close>. The content hash comes from \<open>computeContentHash\<close> of
  core/skill-metadata.ts, a parameter here, called on the raw content with the prefix in
  its dash form.
\<close>

definition addAgentMetadata ::
  "(string \<Rightarrow> string \<Rightarrow> string) \<Rightarrow> Agent \<Rightarrow> string \<Rightarrow> string" where
  "addAgentMetadata computeSkillContentHash agent metadataPrefix =
     (let hashMetadataPrefix = map (\<lambda>c. if c = CHR ''_'' then CHR ''-'' else c) metadataPrefix;
          contentHash = computeSkillContentHash (rawContent agent) hashMetadataPrefix;
          existingFrontmatter =
            (case frontmatter agent of Some fm \<Rightarrow> fm | None \<Rightarrow> empty_frontmatter);
          yamlContent = serializeFrontmatter
                          (newFrontmatter existingFrontmatter metadataPrefix contentHash)
      in ''---'' @ [NL] @ yamlContent @ [NL] @ ''---'' @ [NL] @ body agent)"

subsection \<open>Reading frontmatter\<close>

text \<open>
  The regular expressions of the module are written out as functions on the string. The
  classes are those of JavaScript on code units below 256: \<open>\s\<close> is tab, line feed,
  vertical tab, form feed, carriage return, space and no-break space; \<open>\w\<close> is a letter,
  a digit or the underscore; \<open>.\<close> is any character but line feed and carriage return.
\<close>

definition is_line_terminator :: "char \<Rightarrow> bool" where
  "is_line_terminator c = (c = NL \<or> c = CR)"

definition is_quote :: "char \<Rightarrow> bool" where
  "is_quote c = (c = DQ \<or> c = SQ)"

definition trim :: "string \<Rightarrow> string" where
  "trim s = rev (dropWhile is_space (rev (dropWhile is_space s)))"

text \<open>
  \<open>.replace(/^["']|["']$/g, "")\<close>: a quote at the start is removed, then a quote at the
  end of what is left.
\<close>

definition strip_quotes :: "string \<Rightarrow> string" where
  "strip_quotes s =
     (let s1 = (case s of c # cs \<Rightarrow> if is_quote c then cs else s | [] \<Rightarrow> s)
      in if s1 \<noteq> [] \<and> is_quote (last s1) then butlast s1 else s1)"

text \<open>
  \<open>/^\s+-\s+/\<close>: white space, a dash, white space, each run taken whole. The result is
  what \<open>line.replace(/^\s+-\s+/, "")\<close> leaves, \<open>None\<close> when the line does not match.
\<close>

definition array_item_rest :: "string \<Rightarrow> string option" where
  "array_item_rest line =
     (if line = [] \<or> \<not> is_space (hd line) then None
      else
        (case dropWhile is_space line of
           c # r2 \<Rightarrow>
             if c = CHR ''-'' \<and> r2 \<noteq> [] \<and> is_space (hd r2)
             then Some (dropWhile is_space r2) else None
         | [] \<Rightarrow> None))"

text \<open>
  The tail \<open>:\s*(.*)$\<close> of both key patterns, on what follows the key: a colon, white
  space, then the rest of the line, which must hold no line terminator for \<open>$\<close> to be
  reached. The result is the rest after the white space.
\<close>

definition after_colon :: "string \<Rightarrow> string option" where
  "after_colon r =
     (case r of
        c # rest \<Rightarrow>
          if c = CHR '':'' then
            (let r3 = dropWhile is_space rest
             in if list_ex is_line_terminator r3 then None else Some r3)
          else None
      | [] \<Rightarrow> None)"

text \<open>\<open>/^(\w+):\s*(.*)$/\<close>: the key and the second group.\<close>

definition top_match :: "string \<Rightarrow> (string \<times> string) option" where
  "top_match line =
     (let key = takeWhile is_word line in
      if key = [] then None
      else (case after_colon (dropWhile is_word line) of
              Some r3 \<Rightarrow> Some (key, r3)
            | None \<Rightarrow> None))"

text \<open>
  \<open>/^\s+(\w+):\s*["']?(.*)["']?$/\<close>: as above after leading white space, and one
  opening quote is left out of the second group. The greedy \<open>(.*)\<close> runs to the end of
  the line, so the closing \<open>["']?\<close> matches nothing.
\<close>

definition nested_match :: "string \<Rightarrow> (string \<times> string) option" where
  "nested_match line =
     (if line = [] \<or> \<not> is_space (hd line) then None
      else
        (let r1 = dropWhile is_space line;
             key = takeWhile is_word r1
         in if key = [] then None
            else (case after_colon (dropWhile is_word r1) of
                    Some r3 \<Rightarrow>
                      Some (key, case r3 of c # cs \<Rightarrow> if is_quote c then cs else r3
                                 | [] \<Rightarrow> [])
                  | None \<Rightarrow> None)))"

text \<open>
  The variables of the loop of \<open>parseSimpleYaml\<close>. \<open>isArray\<close> is true exactly when
  \<open>currentValue\<close> is an array: both are set together, and reset together when the value
  is saved.
\<close>

datatype current_value = CNull | CArr "string list" | CObj "string obj"

record yaml_state =
  result :: AgentFrontmatter
  currentKey :: "string option"
  currentValue :: current_value

fun is_array :: "current_value \<Rightarrow> bool" where
  "is_array (CArr _) = True"
| "is_array _ = False"

text \<open>\<open>if (currentKey && currentValue !== null) result[currentKey] = currentValue\<close>.\<close>

fun save_value :: "string option \<Rightarrow> current_value \<Rightarrow> AgentFrontmatter \<Rightarrow> AgentFrontmatter" where
  "save_value (Some k) (CArr items) res = assign k (VArr items) res"
| "save_value (Some k) (CObj m) res = assign k (VObj m) res"
| "save_value _ _ res = res"

text \<open>\<open>lines[lines.indexOf(line) + 1]\<close>: the line after the first line equal to this one.\<close>

fun line_after :: "string list \<Rightarrow> string \<Rightarrow> string option" where
  "line_after [] line = None"
| "line_after (l # ls) line =
     (if l = line then (case ls of [] \<Rightarrow> None | n # _ \<Rightarrow> Some n) else line_after ls line)"

text \<open>
  One round of the loop; \<open>None\<close> is the \<open>TypeError\<close> of assigning a property of
  \<open>null\<close>. \<open>json\<close> is \<open>JSON.parse\<close> on an inline array: the strings of its items, or
  \<open>None\<close> when it throws.
\<close>

definition yaml_line ::
  "(string \<Rightarrow> string list option) \<Rightarrow> string list \<Rightarrow> yaml_state \<Rightarrow> string \<Rightarrow> yaml_state option" where
  "yaml_line json lines st line =
     (if trim line = [] then Some st
      else
        (case array_item_rest line of
           Some rest \<Rightarrow>
             (case (currentKey st, currentValue st) of
                (Some k, CArr items) \<Rightarrow>
                  Some (st\<lparr> currentValue := CArr (items @ [trim (strip_quotes rest)]) \<rparr>)
              | _ \<Rightarrow> Some st)
         | None \<Rightarrow>
             if take 2 line = ''  '' \<and> currentKey st \<noteq> None \<and> \<not> is_array (currentValue st)
             then
               (case nested_match line of
                  None \<Rightarrow> Some st
                | Some (key, group2) \<Rightarrow>
                    (case currentValue st of
                       CObj m \<Rightarrow>
                         Some (st\<lparr> currentValue := CObj (obj_set key (strip_quotes group2) m) \<rparr>)
                     | _ \<Rightarrow> None))
             else
               (let saved = save_value (currentKey st) (currentValue st) (result st);
                    cleared = (if currentKey st \<noteq> None \<and> currentValue st \<noteq> CNull then CNull
                               else currentValue st)
                in case top_match line of
                     None \<Rightarrow> Some (st\<lparr> result := saved, currentValue := cleared \<rparr>)
                   | Some (key, group2) \<Rightarrow>
                       (let v = trim group2 in
                        if v = [] then
                          (if (case line_after lines line of
                                 Some n \<Rightarrow> array_item_rest n \<noteq> None
                               | None \<Rightarrow> False)
                           then Some \<lparr> result = saved, currentKey = Some key,
                                       currentValue = CArr [] \<rparr>
                           else Some \<lparr> result = saved, currentKey = Some key,
                                       currentValue = CObj [] \<rparr>)
                        else if hd v = CHR ''['' \<and> last v = CHR '']'' then
                          (case json v of
                             Some items \<Rightarrow>
                               Some \<lparr> result = assign key (VArr items) saved,
                                      currentKey = None, currentValue = CNull \<rparr>
                           | None \<Rightarrow>
                               Some \<lparr> result = assign key (VStr (strip_quotes v)) saved,
                                      currentKey = None, currentValue = CNull \<rparr>)
                        else
                          Some \<lparr> result = assign key (VStr (strip_quotes v)) saved,
                                 currentKey = None, currentValue = CNull \<rparr>))))"

fun yaml_loop ::
  "(string \<Rightarrow> string list option) \<Rightarrow> string list \<Rightarrow> yaml_state \<Rightarrow> string list \<Rightarrow> yaml_state option" where
  "yaml_loop json lines st [] = Some st"
| "yaml_loop json lines st (line # rest) =
     (case yaml_line json lines st line of
        None \<Rightarrow> None
      | Some st' \<Rightarrow> yaml_loop json lines st' rest)"

definition parseSimpleYaml ::
  "(string \<Rightarrow> string list option) \<Rightarrow> string \<Rightarrow> AgentFrontmatter option" where
  "parseSimpleYaml json yaml =
     (let lines = split_char NL yaml in
      case yaml_loop json lines
             \<lparr> result = empty_frontmatter, currentKey = None, currentValue = CNull \<rparr> lines of
        None \<Rightarrow> None
      | Some st \<Rightarrow> Some (save_value (currentKey st) (currentValue st) (result st)))"

text \<open>
  \<open>FRONTMATTER_REGEX = /^---\r?\n([\s\S]*?)\r?\n---\r?\n?/\<close>. \<open>open_delim\<close> is the
  opening \<open>---\r?\n\<close>, \<open>close_delim\<close> the closing \<open>\r?\n---\r?\n?\<close>; each returns what
  follows the match. The lazy group ends at the first position where the closing matches.
\<close>

definition open_delim :: "string \<Rightarrow> string option" where
  "open_delim s =
     (if take 4 s = ''---'' @ [NL] then Some (drop 4 s)
      else if take 5 s = ''---'' @ [CR, NL] then Some (drop 5 s)
      else None)"

definition close_delim :: "string \<Rightarrow> string option" where
  "close_delim s =
     (let s1 = (if take 2 s = [CR, NL] then Some (drop 2 s)
                else if take 1 s = [NL] then Some (drop 1 s)
                else None)
      in case s1 of
           None \<Rightarrow> None
         | Some t \<Rightarrow>
             if take 3 t = ''---'' then
               (let t1 = drop 3 t;
                    t2 = (if take 1 t1 = [CR] then drop 1 t1 else t1)
                in Some (if take 1 t2 = [NL] then drop 1 t2 else t2))
             else None)"

fun find_close :: "string \<Rightarrow> string \<Rightarrow> (string \<times> string) option" where
  "find_close acc [] = (case close_delim [] of Some rest \<Rightarrow> Some (rev acc, rest) | None \<Rightarrow> None)"
| "find_close acc (c # cs) =
     (case close_delim (c # cs) of
        Some rest \<Rightarrow> Some (rev acc, rest)
      | None \<Rightarrow> find_close (c # acc) cs)"

definition parseFrontmatter ::
  "(string \<Rightarrow> string list option) \<Rightarrow> string \<Rightarrow> AgentFrontmatter option \<times> string" where
  "parseFrontmatter json text =
     (case open_delim text of
        None \<Rightarrow> (None, text)
      | Some opened \<Rightarrow>
          (case find_close [] opened of
             None \<Rightarrow> (None, text)
           | Some (rawYaml, rest) \<Rightarrow>
               if rawYaml = [] then (None, text)
               else (case parseSimpleYaml json rawYaml of
                       Some fm \<Rightarrow> (Some fm, rest)
                     | None \<Rightarrow> (None, text))))"

text \<open>
  The pattern of \<open>parseAgent\<close>,
  \<open>/^---\r?\n[\s\S]*?tools:\s*\n((?:\s+-\s+.+\n?)+)/m\<close>. One item \<open>\s+-\s+.+\n?\<close>:
  white space, a dash, white space, the rest of the line, a line feed if there is one.
  When the input ends after the second white space, the pattern backs off into it:
  \<open>.+\<close> takes its last character that is no line terminator.
\<close>

definition item_match :: "string \<Rightarrow> (string \<times> string) option" where
  "item_match s =
     (let a = takeWhile is_space s in
      if a = [] then None
      else
        (case dropWhile is_space s of
           c # r2 \<Rightarrow>
             if c \<noteq> CHR ''-'' then None
             else
               (let b = takeWhile is_space r2;
                    r3 = dropWhile is_space r2
                in if b = [] then None
                   else if r3 \<noteq> [] then
                     (let d = takeWhile (\<lambda>x. \<not> is_line_terminator x) r3;
                          r4 = dropWhile (\<lambda>x. \<not> is_line_terminator x) r3
                      in if take 1 r4 = [NL] then Some (a @ [c] @ b @ d @ [NL], drop 1 r4)
                         else Some (a @ [c] @ b @ d, r4))
                   else
                     (case filter (\<lambda>j. \<not> is_line_terminator (b ! j)) (rev [1..<length b]) of
                        [] \<Rightarrow> None
                      | j # _ \<Rightarrow>
                          (let r4 = drop (Suc j) b
                           in if take 1 r4 = [NL]
                              then Some (a @ [c] @ take (Suc j) b @ [NL], drop 1 r4)
                              else Some (a @ [c] @ take (Suc j) b, r4))))
         | [] \<Rightarrow> None))"

text \<open>The group \<open>((?:...)+)\<close>: as many items as match; every item is at least three characters.\<close>

function items_text :: "string \<Rightarrow> string" where
  "items_text s =
     (case item_match s of
        None \<Rightarrow> []
      | Some (t, rest) \<Rightarrow> if length rest < length s then t @ items_text rest else t)"
  by pat_completeness auto
termination
  by (relation "measure length") auto

definition items_match :: "string \<Rightarrow> string option" where
  "items_match s = (if item_match s = None then None else Some (items_text s))"

fun first_some :: "'a option list \<Rightarrow> 'a option" where
  "first_some [] = None"
| "first_some (Some x # _) = Some x"
| "first_some (None # xs) = first_some xs"

text \<open>
  \<open>tools:\s*\n\<close> and the group: the greedy \<open>\s*\<close> is cut back to the last line feed
  of the white space after which the group matches.
\<close>

definition tools_tail :: "string \<Rightarrow> string option" where
  "tools_tail s =
     (if take 6 s = ''tools:'' then
        (let rest = drop 6 s;
             w = takeWhile is_space rest
         in first_some (map (\<lambda>j. items_match (drop (Suc j) rest))
                          (filter (\<lambda>j. w ! j = NL) (rev [0..<length w]))))
      else None)"

fun tools_scan :: "string \<Rightarrow> string option" where
  "tools_scan [] = tools_tail []"
| "tools_scan (c # cs) =
     (case tools_tail (c # cs) of Some g \<Rightarrow> Some g | None \<Rightarrow> tools_scan cs)"

text \<open>With the flag \<open>m\<close>, \<open>^\<close> holds at the start and after every line terminator.\<close>

fun tools_start :: "bool \<Rightarrow> string \<Rightarrow> string option" where
  "tools_start bol [] = None"
| "tools_start bol (c # cs) =
     (case (if bol then open_delim (c # cs) else None) of
        Some rest \<Rightarrow> Some rest
      | None \<Rightarrow> tools_start (is_line_terminator c) cs)"

definition toolsMatch :: "string \<Rightarrow> string option" where
  "toolsMatch text =
     (case tools_start True text of None \<Rightarrow> None | Some rest \<Rightarrow> tools_scan rest)"

definition parseAgent :: "(string \<Rightarrow> string list option) \<Rightarrow> string \<Rightarrow> string \<Rightarrow> Agent" where
  "parseAgent json text relPath =
     (case parseFrontmatter json text of
        (fm, bodyText) \<Rightarrow>
          \<lparr> relativePath = relPath,
            rawContent = text,
            frontmatter =
              (case fm of
                 None \<Rightarrow> None
               | Some f \<Rightarrow>
                   (case toolsMatch text of
                      None \<Rightarrow> Some f
                    | Some toolsContent \<Rightarrow>
                        (let tools =
                               filter (\<lambda>t. t \<noteq> [])
                                 (map (\<lambda>line. trim (strip_quotes
                                         (case array_item_rest line of
                                            Some r \<Rightarrow> r | None \<Rightarrow> line)))
                                    (filter (\<lambda>line. take 1 (trim line) = ''-'')
                                       (split_char NL toolsContent)))
                         in if tools \<noteq> [] then Some (assign ''tools'' (VArr tools) f)
                            else Some f))),
            body = bodyText \<rparr>)"

section \<open>Sample agent files\<close>

text \<open>
  \<open>computeContentHash\<close> of core/skill-metadata.ts is not among the sources. To run
  \<open>addAgentMetadata\<close> on the files below, \<open>raw_hash\<close> stands in for it: \<open>hashContent\<close> of
  core/lockfile.ts on the raw content, which has the form of a content hash and strips
  nothing.
\<close>

definition raw_hash :: "string \<Rightarrow> string \<Rightarrow> string" where
  "raw_hash content metadataPrefix = hashContent (units content)"

text \<open>
  The files hold no inline array, so \<open>JSON.parse\<close> is never reached; they run with a
  conversion that rejects every text.
\<close>

definition json_none :: "string \<Rightarrow> string list option" where
  "json_none v = None"

text \<open>An agent file whose description is quoted and holds quotes.\<close>

definition quoted_agent :: string where
  "quoted_agent =
     ''---'' @ [NL] @ ''name: a'' @ [NL] @ ''description: '' @ [SQ] @ ''say '' @ [DQ] @
     ''hi'' @ [DQ, SQ, NL] @ ''---'' @ [NL] @ ''B''"

text \<open>The file as \<open>addAgentMetadata\<close> writes it for the prefix \<open>agconf\<close>.\<close>

definition stamped_quoted_agent :: string where
  "stamped_quoted_agent =
     ''---'' @ [NL] @ ''name: a'' @ [NL] @ ''description: say '' @ [DQ] @ ''hi'' @
     [DQ, NL] @ ''metadata:'' @ [NL] @ ''  agconf_managed: '' @ [DQ] @ ''true'' @
     [DQ, NL] @ ''  agconf_content_hash: '' @ [DQ] @ ''sha256:a25b0cc54e9d'' @
     [DQ, NL] @ ''---'' @ [NL] @ ''B''"

text \<open>The stamped file, read and stamped once more.\<close>

definition restamped_quoted_agent :: string where
  "restamped_quoted_agent =
     ''---'' @ [NL] @ ''name: a'' @ [NL] @ ''description: say '' @ [DQ] @ ''hi'' @
     [NL] @ ''metadata:'' @ [NL] @ ''  agconf_managed: '' @ [DQ] @ ''true'' @
     [DQ, NL] @ ''  agconf_content_hash: '' @ [DQ] @ ''sha256:3d8067de4451'' @
     [DQ, NL] @ ''---'' @ [NL] @ ''B''"




text \<open>A file whose frontmatter has a nested map under the key \<open>__proto__\<close>.\<close>

definition proto_agent :: string where
  "proto_agent =
     ''---'' @ [NL] @ ''__proto__:'' @ [NL] @ ''  name: evil'' @ [NL] @
     ''tools: Read'' @ [NL] @ ''---'' @ [NL] @ ''B''"

section \<open>Marker merge of the instructions document\<close>



















section \<open>Theorems\<close>

text \<open>
  C10. The two implementations of \<open>formatSourceString\<close> return the same string on every
  source: \<open>github:<repository>@<first 7 sha characters>\<close> for a github source,
  \<open>local:<path>@<first 7 sha characters>\<close> for a local source with a (non-empty) sha, and
  \<open>local:<path>\<close> for a local source without one.
\<close>

theorem formatSourceString_equal:
  "formatSourceString_providers src = formatSourceString src \<and>
   formatSourceString (Github repo sha r) = ''github:'' @ repo @ ''@'' @ take 7 sha \<and>
   formatSourceString (Local p (Some (c # cs))) = ''local:'' @ p @ ''@'' @ take 7 (c # cs) \<and>
   formatSourceString (Local p (Some [])) = ''local:'' @ p \<and>
   formatSourceString (Local p None) = ''local:'' @ p"
  by (cases src) (auto split: option.splits)

text \<open>
  C9. The registry has two built-in targets. The configuration of \<open>claude\<close> names the
  adapter file \<open>CLAUDE.md\<close>, whose content is the inclusion directive \<open>@../AGENTS.md\<close>;
  the configuration of \<open>codex\<close> names no adapter file and no content. The table
  \<open>TARGET_CONFIGS\<close> agrees on both.
\<close>

theorem registry_builtin_targets:
  "name claudeTarget = ''claude'' \<and>
   instructionsFile (config claudeTarget) = Some ''CLAUDE.md'' \<and>
   instructionsContent (config claudeTarget) = Some ''@../AGENTS.md'' \<and>
   name codexTarget = ''codex'' \<and>
   instructionsFile (config codexTarget) = None \<and>
   instructionsContent (config codexTarget) = None \<and>
   name claudeTarget \<noteq> name codexTarget \<and>
   SUPPORTED_TARGETS = [claude, codex] \<and> 2 \<le> length SUPPORTED_TARGETS \<and>
   instructionsFile0 (getTargetConfig claude) = Some ''CLAUDE.md'' \<and>
   instructionsFile0 (getTargetConfig codex) = None"
  by (simp add: claudeTarget_def codexTarget_def CLAUDE_CONFIG_def CODEX_CONFIG_def
      SUPPORTED_TARGETS_def getTargetConfig_def)

subsection \<open>The digest\<close>




















subsection \<open>Reading the lockfile\<close>

text \<open>
  C7. \<open>readLockfile\<close> returns null exactly when reading the file fails with code
  \<open>ENOENT\<close>. Every other file-system error, the \<open>SyntaxError\<close> of \<open>JSON.parse\<close> and the
  \<open>ZodError\<close> of the schema are propagated, and a lockfile that is returned is the output
  of the schema on the parsed content of the file.
\<close>

theorem readLockfile_result:
  "(readLockfile host targetDir = Inr None)
     = (readFile host (getLockfilePath targetDir) = Inl ''ENOENT'') \<and>
   (\<forall>code. readFile host (getLockfilePath targetDir) = Inl code \<and> code \<noteq> ''ENOENT''
      \<longrightarrow> readLockfile host targetDir = Inl (ErrnoException code)) \<and>
   (\<forall>text msg. readFile host (getLockfilePath targetDir) = Inr text \<and>
        JSON_parse host text = Inl msg
      \<longrightarrow> readLockfile host targetDir = Inl (SyntaxError msg)) \<and>
   (\<forall>text parsed msg. readFile host (getLockfilePath targetDir) = Inr text \<and>
        JSON_parse host text = Inr parsed \<and> LockfileSchema_parse host parsed = Inl msg
      \<longrightarrow> readLockfile host targetDir = Inl (ZodError msg)) \<and>
   (\<forall>lockfile. readLockfile host targetDir = Inr (Some lockfile)
      \<longrightarrow> (\<exists>text parsed. readFile host (getLockfilePath targetDir) = Inr text \<and>
            JSON_parse host text = Inr parsed \<and>
            LockfileSchema_parse host parsed = Inr lockfile))"
  by (auto simp: readLockfile_def readLockfile_try_def Let_def split: sum.splits)

theorem readLockfile_result_witness:
  "readLockfile sample_host [''nowhere''] = Inr None \<and>
   readLockfile sample_host [''locked''] = Inl (ErrnoException ''EACCES'') \<and>
   readLockfile sample_host [''bad''] = Inl (SyntaxError ''Unexpected end of JSON input'') \<and>
   readLockfile sample_host [''empty''] = Inl (ZodError ''Required'') \<and>
   readLockfile sample_host [''repo''] = Inr (Some (sample_lockfile ''1.10.0''))"
proof -
  have a: "readLockfile sample_host [''nowhere''] = Inr None"
    using readLockfile_result [of sample_host "[''nowhere'']"]
    by (simp add: sample_host_def getLockfilePath_def CONFIG_DIR_def LOCKFILE_NAME_def)
  have b: "readLockfile sample_host [''locked''] = Inl (ErrnoException ''EACCES'')"
    using readLockfile_result [of sample_host "[''locked'']"]
    by (simp add: sample_host_def getLockfilePath_def CONFIG_DIR_def LOCKFILE_NAME_def)
  have c: "readLockfile sample_host [''bad''] = Inl (SyntaxError ''Unexpected end of JSON input'')"
    using readLockfile_result [of sample_host "[''bad'']"]
    by (simp add: sample_host_def getLockfilePath_def CONFIG_DIR_def LOCKFILE_NAME_def)
  have d: "readLockfile sample_host [''empty''] = Inl (ZodError ''Required'')"
    using readLockfile_result [of sample_host "[''empty'']"]
    by (simp add: sample_host_def getLockfilePath_def CONFIG_DIR_def LOCKFILE_NAME_def)
  have e: "readLockfile sample_host [''repo''] = Inr (Some (sample_lockfile ''1.10.0''))"
    by (simp add: readLockfile_def readLockfile_try_def sample_host_def getLockfilePath_def
        CONFIG_DIR_def LOCKFILE_NAME_def)
  from a b c d e show ?thesis by simp
qed

subsection \<open>The version check\<close>

lemma version_loop_3:
  "version_loop l c mm 0 3 =
     (if spec_newer (or0 l 0, or0 l 1, or0 l 2) (or0 c 0, or0 c 1, or0 c 2)
      then Some mm else None)"
  by (auto simp: eval_nat_numeral)

text \<open>
  C6. \<open>checkCliVersionMismatch\<close> returns a mismatch exactly when a lockfile exists, both
  version strings are non-empty and the triplet of the lockfile's \<open>cli_version\<close> is
  strictly greater than the triplet of the running version, a missing component (and one
  that is not a number) counting as 0. It returns null when there is no lockfile and when
  the running version is equal or newer; an error of \<open>readLockfile\<close> is propagated.
\<close>

theorem checkCliVersionMismatch_iff:
  "checkCliVersionMismatch Number host targetDir =
     (case readLockfile host targetDir of
        Inl err \<Rightarrow> Inl err
      | Inr None \<Rightarrow> Inr None
      | Inr (Some lockfile) \<Rightarrow>
          Inr (if getCliVersion host \<noteq> [] \<and> cli_version lockfile \<noteq> [] \<and>
                 spec_newer (spec_triplet Number (cli_version lockfile))
                            (spec_triplet Number (getCliVersion host))
               then Some \<lparr> currentVersion = getCliVersion host,
                           lockfileVersion = cli_version lockfile \<rparr>
               else None)) \<and>
   (checkCliVersionMismatch Number host targetDir = Inr (Some mismatch)) =
     (\<exists>lockfile. readLockfile host targetDir = Inr (Some lockfile) \<and>
        getCliVersion host \<noteq> [] \<and> cli_version lockfile \<noteq> [] \<and>
        spec_newer (spec_triplet Number (cli_version lockfile))
                   (spec_triplet Number (getCliVersion host)) \<and>
        mismatch = \<lparr> currentVersion = getCliVersion host,
                      lockfileVersion = cli_version lockfile \<rparr>)"
proof -
  have eq: "checkCliVersionMismatch Number host targetDir =
     (case readLockfile host targetDir of
        Inl err \<Rightarrow> Inl err
      | Inr None \<Rightarrow> Inr None
      | Inr (Some lockfile) \<Rightarrow>
          Inr (if getCliVersion host \<noteq> [] \<and> cli_version lockfile \<noteq> [] \<and>
                 spec_newer (spec_triplet Number (cli_version lockfile))
                            (spec_triplet Number (getCliVersion host))
               then Some \<lparr> currentVersion = getCliVersion host,
                           lockfileVersion = cli_version lockfile \<rparr>
               else None))"
    by (simp add: checkCliVersionMismatch_def Let_def version_loop_3 spec_triplet_def
        split: sum.splits option.splits)
  show ?thesis
    apply (rule conjI [OF eq])
    apply (subst eq)
    apply (auto split: sum.splits option.splits)
    done
qed

theorem checkCliVersionMismatch_witness:
  "checkCliVersionMismatch Number_digits sample_host [''repo''] =
     Inr (Some \<lparr> currentVersion = ''1.9.3'', lockfileVersion = ''1.10.0'' \<rparr>) \<and>
   checkCliVersionMismatch Number_digits sample_host [''nowhere''] = Inr None"
proof -
  have r: "readLockfile sample_host [''repo''] = Inr (Some (sample_lockfile ''1.10.0''))"
    by (simp add: readLockfile_def readLockfile_try_def sample_host_def getLockfilePath_def
        CONFIG_DIR_def LOCKFILE_NAME_def)
  have n: "readLockfile sample_host [''nowhere''] = Inr None"
    by (simp add: readLockfile_def readLockfile_try_def sample_host_def getLockfilePath_def
        CONFIG_DIR_def LOCKFILE_NAME_def)
  have v: "getCliVersion sample_host = ''1.9.3''"
    by (simp add: getCliVersion_def sample_host_def)
  have l: "cli_version (sample_lockfile ''1.10.0'') = ''1.10.0''"
    by (simp add: sample_lockfile_def)
  have t1: "spec_triplet Number_digits ''1.10.0'' = (1, 10, 0)"
    by (simp add: spec_triplet_def Let_def or0_def Number_digits_def)
  have t2: "spec_triplet Number_digits ''1.9.3'' = (1, 9, 3)"
    by (simp add: spec_triplet_def Let_def or0_def Number_digits_def)
  show ?thesis
    using checkCliVersionMismatch_iff [of Number_digits sample_host "[''repo'']"]
      checkCliVersionMismatch_iff [of Number_digits sample_host "[''nowhere'']"]
    by (simp add: r n v l t1 t2)
qed

subsection \<open>Local source resolution\<close>

text \<open>
  C8. With an explicit (non-empty) local path, resolution fails with the error
  \<open>Invalid canonical repository: ...\<close> when \<open>instructions/AGENTS.md\<close> or the skills
  directory is missing under the resolved path, and succeeds otherwise. A git log that
  throws does not fail the resolution: it leaves \<open>commit_sha\<close> of the source unset.
\<close>

theorem resolveLocalSource_explicit:
  assumes "opt_path options = Some p" and "p \<noteq> []"
  shows
    "(\<not> fs_access host (path_resolve host p @ [''instructions'', ''AGENTS.md'']) \<longrightarrow>
        resolveLocalSource host options =
          Inl (Error (''Invalid canonical repository: missing instructions/AGENTS.md at ''
                 @ show_path (path_resolve host p)))) \<and>
     (fs_access host (path_resolve host p @ [''instructions'', ''AGENTS.md'']) \<and>
      \<not> fs_access host (path_resolve host p @ [''skills'']) \<longrightarrow>
        resolveLocalSource host options =
          Inl (Error (''Invalid canonical repository: missing skills/ directory at ''
                 @ show_path (path_resolve host p)))) \<and>
     (fs_access host (path_resolve host p @ [''instructions'', ''AGENTS.md'']) \<and>
      fs_access host (path_resolve host p @ [''skills'']) \<longrightarrow>
        resolveLocalSource host options =
          Inr \<lparr> rs_source = Local (show_path (path_resolve host p))
                   (case git_log host (path_resolve host p) of
                      LogThrows \<Rightarrow> None | LogLatest latest \<Rightarrow> latest),
                 basePath = path_resolve host p,
                 agentsMdPath = path_resolve host p @ [''instructions'', ''AGENTS.md''],
                 skillsPath = path_resolve host p @ [''skills''] \<rparr>)"
  using assms
  by (simp add: resolveLocalSource_def validateCanonicalRepo_def Let_def)

theorem resolveLocalSource_explicit_witness:
  "resolveLocalSource sample_resolver_host \<lparr> opt_path = Some ''canon'' \<rparr> =
     Inr \<lparr> rs_source = Local ''/canon'' None, basePath = [''canon''],
            agentsMdPath = [''canon'', ''instructions'', ''AGENTS.md''],
            skillsPath = [''canon'', ''skills''] \<rparr> \<and>
   resolveLocalSource sample_resolver_host \<lparr> opt_path = Some ''work'' \<rparr> =
     Inl (Error ''Invalid canonical repository: missing instructions/AGENTS.md at /work'')"
  using resolveLocalSource_explicit [of "\<lparr> opt_path = Some ''canon'' \<rparr>" "''canon''" sample_resolver_host]
    resolveLocalSource_explicit [of "\<lparr> opt_path = Some ''work'' \<rparr>" "''work''" sample_resolver_host]
  by (simp add: sample_resolver_host_def show_path_def)

subsection \<open>Objects and their keys\<close>









lemma update_same_value:
  "(\<forall>kv\<in>set obj. fst kv = k \<longrightarrow> snd kv = v) \<Longrightarrow>
   map (\<lambda>(k', v'). if k' = k then (k', v) else (k', v')) obj = obj"
  by (induction obj) auto

lemma insert_index_after:
  "(\<forall>y\<in>set pre. is_array_index (fst y) \<and> decimal_value (fst y) < decimal_value k) \<Longrightarrow>
   (tail = [] \<or> \<not> (is_array_index (fst (hd tail)) \<and> decimal_value (fst (hd tail)) < decimal_value k)) \<Longrightarrow>
   insert_index k v (pre @ tail) = pre @ (k, v) # tail"
proof (induction pre)
  case Nil
  then show ?case by (cases tail) auto
next
  case (Cons y pre)
  then show ?case by (cases y) auto
qed












lemma index_key_hd_digit: "is_array_index k \<Longrightarrow> is_digit (hd k)"
proof -
  assume "is_array_index k"
  then have "k \<noteq> []" and "list_all is_digit k"
    unfolding is_array_index_def by blast+
  then show ?thesis by (cases k) simp_all
qed

lemma name_not_index: "\<not> is_array_index ''name''"
proof
  assume "is_array_index ''name''"
  then have "is_digit (hd ''name'')" by (rule index_key_hd_digit)
  then show False by (simp add: is_digit_def in_range_def)
qed

lemma description_not_index: "\<not> is_array_index ''description''"
proof
  assume "is_array_index ''description''"
  then have "is_digit (hd ''description'')" by (rule index_key_hd_digit)
  then show False by (simp add: is_digit_def in_range_def)
qed

lemma metadata_not_index: "\<not> is_array_index ''metadata''"
proof
  assume "is_array_index ''metadata''"
  then have "is_digit (hd ''metadata'')" by (rule index_key_hd_digit)
  then show False by (simp add: is_digit_def in_range_def)
qed

lemma proto_not_index: "\<not> is_array_index ''__proto__''"
proof
  assume "is_array_index ''__proto__''"
  then have "is_digit (hd ''__proto__'')" by (rule index_key_hd_digit)
  then show False by (simp add: is_digit_def in_range_def)
qed

lemmas special_keys_not_index =
  name_not_index description_not_index metadata_not_index proto_not_index

lemma copy_field_noop: "k = ''metadata'' \<or> k = ''__proto__'' \<Longrightarrow> copy_field acc (k, v) = acc"
  by (auto simp: copy_field_def obj_set_def)

lemma copy_field_index:
  assumes "is_array_index k" and "k \<notin> set (obj_keys (pre @ tail))"
    and "\<forall>y\<in>set pre. is_array_index (fst y) \<and> decimal_value (fst y) < decimal_value k"
    and "tail = [] \<or> \<not> (is_array_index (fst (hd tail)) \<and> decimal_value (fst (hd tail)) < decimal_value k)"
  shows "copy_field (pre @ tail) (k, v) = pre @ (k, v) # tail"
proof -
  from assms(1) have "k \<noteq> ''metadata''" "k \<noteq> ''__proto__''"
    using metadata_not_index proto_not_index by auto
  then show ?thesis
    using assms(1,2) insert_index_after [OF assms(3,4)]
    by (simp add: copy_field_def obj_set_def)
qed

lemma copy_field_append:
  assumes "\<not> is_array_index k" and "k \<notin> set (obj_keys acc)"
    and "k \<noteq> ''metadata''" and "k \<noteq> ''__proto__''"
  shows "copy_field acc (k, v) = acc @ [(k, v)]"
  using assms by (simp add: copy_field_def obj_set_def)

lemma rebuild_indices:
  assumes "list_all (\<lambda>kv. is_array_index (fst kv)) (pre @ suf)"
    and "sorted_wrt (\<lambda>a b. decimal_value (fst a) < decimal_value (fst b)) (pre @ suf)"
    and "\<forall>t\<in>set tail. \<not> is_array_index (fst t)"
  shows "foldl copy_field (pre @ tail) suf = pre @ suf @ tail"
  using assms
proof (induction suf arbitrary: pre)
  case Nil
  then show ?case by simp
next
  case (Cons x suf)
  obtain k v where x: "x = (k, v)" by (cases x)
  from Cons.prems(1) have ik: "is_array_index k" and ipre: "\<forall>y\<in>set pre. is_array_index (fst y)"
    by (auto simp: x list_all_iff)
  from Cons.prems(2) have lt: "\<forall>y\<in>set pre. decimal_value (fst y) < decimal_value k"
    by (auto simp: x sorted_wrt_append)
  have nk: "k \<notin> set (obj_keys (pre @ tail))"
  proof -
    have "fst y \<noteq> k" if "y \<in> set pre" for y using lt that by auto
    moreover have "fst t \<noteq> k" if "t \<in> set tail" for t using Cons.prems(3) ik that by auto
    ultimately show ?thesis by (auto simp: obj_keys_def)
  qed
  have hd: "tail = [] \<or> \<not> (is_array_index (fst (hd tail)) \<and> decimal_value (fst (hd tail)) < decimal_value k)"
    using Cons.prems(3) by (cases tail) auto
  have step: "copy_field (pre @ tail) (k, v) = (pre @ [(k, v)]) @ tail"
    using copy_field_index [OF ik nk _ hd, of v] ipre lt by simp
  have "foldl copy_field ((pre @ [(k, v)]) @ tail) suf = (pre @ [(k, v)]) @ suf @ tail"
    using Cons.prems by (intro Cons.IH) (simp_all add: x)
  then show ?case by (simp add: x step del: append_assoc)
qed




lemma copy_field_in_place:
  assumes "k \<noteq> ''metadata''" and "k \<noteq> ''__proto__''"
    and "\<forall>x\<in>set A. fst x \<noteq> k" and "\<forall>x\<in>set B. fst x \<noteq> k"
  shows "copy_field (A @ (k, v0) # B) (k, v) = A @ (k, v) # B"
proof -
  have a: "map (\<lambda>(k', v'). if k' = k then (k', v) else (k', v')) A = A"
    by (rule update_same_value) (use assms(3) in auto)
  have b: "map (\<lambda>(k', v'). if k' = k then (k', v) else (k', v')) B = B"
    by (rule update_same_value) (use assms(4) in auto)
  have "k \<in> set (obj_keys (A @ (k, v0) # B))"
    by (simp add: obj_keys_def)
  then show ?thesis
    using assms(1,2) by (simp add: copy_field_def obj_set_def a b)
qed

lemma copy_rest:
  assumes "list_all (\<lambda>kv. \<not> is_array_index (fst kv) \<and> fst kv \<noteq> ''__proto__'') R"
    and "distinct (map fst R)"
    and "\<forall>x\<in>set R. \<forall>y\<in>set (A @ B). fst x \<noteq> fst y"
    and "\<forall>y\<in>set (A @ B). fst y \<noteq> ''name'' \<and> fst y \<noteq> ''description''"
  shows "foldl copy_field (A @ [(''name'', n), (''description'', d)] @ B) R =
         A @ [(''name'', case map_of R ''name'' of Some v \<Rightarrow> v | None \<Rightarrow> n),
              (''description'', case map_of R ''description'' of Some v \<Rightarrow> v | None \<Rightarrow> d)] @
         B @ filter (\<lambda>kv. fst kv \<notin> {''name'', ''description'', ''metadata''}) R"
  using assms
proof (induction R arbitrary: n d B)
  case Nil
  then show ?case by simp
next
  case (Cons x R)
  obtain k v where x: "x = (k, v)" by (cases x)
  from Cons.prems(1) have nik: "\<not> is_array_index k" and npk: "k \<noteq> ''__proto__''"
    and restR: "list_all (\<lambda>kv. \<not> is_array_index (fst kv) \<and> fst kv \<noteq> ''__proto__'') R"
    by (simp_all add: x)
  from Cons.prems(2) have kR: "\<forall>y\<in>set R. fst y \<noteq> k" and dR: "distinct (map fst R)"
    by (auto simp: x)
  from kR have mk: "map_of R k = None"
    by (induction R) auto
  from Cons.prems(3) have kAB: "\<forall>y\<in>set (A @ B). fst y \<noteq> k"
    and RAB: "\<forall>x\<in>set R. \<forall>y\<in>set (A @ B). fst x \<noteq> fst y"
    by (auto simp: x)
  note AB = Cons.prems(4)
  consider (meta) "k = ''metadata''" | (name) "k = ''name''" | (desc) "k = ''description''"
    | (other) "k \<noteq> ''metadata''" "k \<noteq> ''name''" "k \<noteq> ''description''"
    by blast
  then show ?case
  proof cases
    case meta
    have step: "copy_field acc (k, v) = acc" for acc
      by (rule copy_field_noop) (simp add: meta)
    show ?thesis
      using Cons.IH [OF restR dR RAB AB, of n d]
      by (simp add: x step) (simp add: meta)
  next
    case name
    have step: "copy_field (A @ (''name'', n) # ((''description'', d) # B)) (''name'', v) =
                A @ (''name'', v) # ((''description'', d) # B)"
      by (rule copy_field_in_place) (use AB in auto)
    have "map_of R ''name'' = None" using mk name by simp
    then show ?thesis
      using Cons.IH [OF restR dR RAB AB, of v d]
      by (simp add: x name step)
  next
    case desc
    have step: "copy_field ((A @ [(''name'', n)]) @ (''description'', d) # B) (''description'', v) =
                (A @ [(''name'', n)]) @ (''description'', v) # B"
      by (rule copy_field_in_place) (use AB in auto)
    have "map_of R ''description'' = None" using mk desc by simp
    then show ?thesis
      using Cons.IH [OF restR dR RAB AB, of n v] step
      by (simp add: x desc)
  next
    case other
    let ?acc = "A @ [(''name'', n), (''description'', d)] @ B"
    have "k \<notin> set (obj_keys ?acc)"
      using kAB other by (auto simp: obj_keys_def)
    then have step: "copy_field ?acc (k, v) = ?acc @ [(k, v)]"
      using nik npk other(1) by (intro copy_field_append) simp_all
    have ih: "foldl copy_field (A @ [(''name'', n), (''description'', d)] @ (B @ [(k, v)])) R =
         A @ [(''name'', case map_of R ''name'' of Some v \<Rightarrow> v | None \<Rightarrow> n),
              (''description'', case map_of R ''description'' of Some v \<Rightarrow> v | None \<Rightarrow> d)] @
         (B @ [(k, v)]) @ filter (\<lambda>kv. fst kv \<notin> {''name'', ''description'', ''metadata''}) R"
    proof (rule Cons.IH [OF restR dR])
      show "\<forall>x\<in>set R. \<forall>y\<in>set (A @ B @ [(k, v)]). fst x \<noteq> fst y"
        using RAB kR by auto
      show "\<forall>y\<in>set (A @ B @ [(k, v)]). fst y \<noteq> ''name'' \<and> fst y \<noteq> ''description''"
        using AB other by auto
    qed
    have step': "copy_field (A @ (''name'', n) # (''description'', d) # B) (k, v) =
                 A @ (''name'', n) # (''description'', d) # B @ [(k, v)]"
      using step by simp
    show ?thesis
      using ih other by (simp add: x step')
  qed
qed

lemma indices_first_no_index:
  "indices_first (k # ks) \<Longrightarrow> \<not> is_array_index k \<Longrightarrow> list_all (\<lambda>k'. \<not> is_array_index k') ks"
  by (induction ks arbitrary: k) auto

lemma indices_first_tail: "indices_first (k # ks) \<Longrightarrow> indices_first ks"
  by (cases ks) simp_all

lemma indices_first_less:
  "indices_first (k # ks) \<Longrightarrow>
   \<forall>x\<in>set ks. is_array_index x \<longrightarrow> decimal_value k < decimal_value x"
proof (induction ks arbitrary: k)
  case Nil
  then show ?case by simp
next
  case (Cons k' ks)
  show ?case
  proof (cases "is_array_index k'")
    case True
    with Cons.prems have lt: "decimal_value k < decimal_value k'" by simp
    from Cons.prems have "indices_first (k' # ks)" by simp
    from Cons.IH [OF this] lt True show ?thesis by fastforce
  next
    case False
    from Cons.prems have "indices_first (k' # ks)" by simp
    from indices_first_no_index [OF this False] False show ?thesis
      by (auto simp: list_all_iff)
  qed
qed

lemma index_fields_sorted:
  "indices_first (map fst fm) \<Longrightarrow>
   sorted_wrt (\<lambda>a b. decimal_value (fst a) < decimal_value (fst b))
     (filter (\<lambda>kv. is_array_index (fst kv)) fm)"
proof (induction fm)
  case Nil
  then show ?case by simp
next
  case (Cons x fm)
  from Cons.prems have t: "indices_first (map fst fm)"
    using indices_first_tail by simp
  from Cons.prems have "\<forall>y\<in>set (map fst fm). is_array_index y \<longrightarrow> decimal_value (fst x) < decimal_value y"
    using indices_first_less by simp
  then show ?case
    using Cons.IH [OF t] by auto
qed

lemma index_fields_first:
  "indices_first (map fst fm) \<Longrightarrow>
   fm = filter (\<lambda>kv. is_array_index (fst kv)) fm @ filter (\<lambda>kv. \<not> is_array_index (fst kv)) fm"
proof (induction fm)
  case Nil
  then show ?case by simp
next
  case (Cons x fm)
  from Cons.prems have t: "indices_first (map fst fm)"
    using indices_first_tail by simp
  show ?case
  proof (cases "is_array_index (fst x)")
    case True
    then show ?thesis using Cons.IH [OF t] by simp
  next
    case False
    from Cons.prems have "list_all (\<lambda>k'. \<not> is_array_index k') (map fst fm)"
      using indices_first_no_index False by simp
    then have "filter (\<lambda>kv. is_array_index (fst kv)) fm = []"
      and "filter (\<lambda>kv. \<not> is_array_index (fst kv)) fm = fm"
      by (auto simp: list_all_iff filter_empty_conv filter_id_conv)
    then show ?thesis using False by simp
  qed
qed

lemma map_of_other_fields:
  "\<not> is_array_index k \<Longrightarrow>
   map_of (filter (\<lambda>kv. \<not> is_array_index (fst kv)) xs) k = map_of xs k"
  by (induction xs) auto

lemma newFrontmatter_entries:
  assumes wf: "js_object (own fm)"
  shows "newFrontmatter fm p h =
     filter (\<lambda>kv. is_array_index (fst kv)) (own fm) @
     [(''name'', or_empty (fm_get fm ''name'')),
      (''description'', or_empty (fm_get fm ''description''))] @
     filter (\<lambda>kv. \<not> is_array_index (fst kv) \<and>
                   fst kv \<notin> {''name'', ''description'', ''metadata''}) (own fm) @
     [(''metadata'', VObj (newMetadata fm p h))]"
proof -
  let ?I = "filter (\<lambda>kv. is_array_index (fst kv)) (own fm)"
  let ?R = "filter (\<lambda>kv. \<not> is_array_index (fst kv)) (own fm)"
  let ?n0 = "or_empty (fm_get fm ''name'')" and ?d0 = "or_empty (fm_get fm ''description'')"
  let ?O = "filter (\<lambda>kv. fst kv \<notin> {''name'', ''description'', ''metadata''}) ?R"
  from wf have d: "distinct (map fst (own fm))"
    and np0: "''__proto__'' \<notin> fst ` set (own fm)"
    and ifs: "indices_first (map fst (own fm))"
    by (simp_all add: js_object_def obj_keys_def)
  from np0 have np: "\<forall>x\<in>set (own fm). fst x \<noteq> ''__proto__''"
    by (metis imageI)
  have split: "own fm = ?I @ ?R"
    by (rule index_fields_first [OF ifs])
  have s1: "foldl copy_field ([] @ [(''name'', ?n0), (''description'', ?d0)]) ?I =
            [] @ ?I @ [(''name'', ?n0), (''description'', ?d0)]"
    by (rule rebuild_indices)
       (simp_all add: list_all_iff index_fields_sorted [OF ifs] name_not_index
          description_not_index)
  have s2: "foldl copy_field (?I @ [(''name'', ?n0), (''description'', ?d0)] @ []) ?R =
         ?I @ [(''name'', case map_of ?R ''name'' of Some v \<Rightarrow> v | None \<Rightarrow> ?n0),
               (''description'', case map_of ?R ''description'' of Some v \<Rightarrow> v | None \<Rightarrow> ?d0)] @
         [] @ ?O"
  proof (rule copy_rest)
    show "list_all (\<lambda>kv. \<not> is_array_index (fst kv) \<and> fst kv \<noteq> ''__proto__'') ?R"
      using np by (simp add: list_all_iff)
    show "distinct (map fst ?R)"
      using d by (rule distinct_map_filter)
    show "\<forall>x\<in>set ?R. \<forall>y\<in>set (?I @ []). fst x \<noteq> fst y"
      by auto
    show "\<forall>y\<in>set (?I @ []). fst y \<noteq> ''name'' \<and> fst y \<noteq> ''description''"
      using name_not_index description_not_index by auto
  qed
  have n: "(case map_of ?R ''name'' of Some v \<Rightarrow> v | None \<Rightarrow> ?n0) = ?n0"
    by (simp add: map_of_other_fields name_not_index fm_get_def obj_get_def
        split: option.splits)
  have dd: "(case map_of ?R ''description'' of Some v \<Rightarrow> v | None \<Rightarrow> ?d0) = ?d0"
    by (simp add: map_of_other_fields description_not_index fm_get_def obj_get_def
        split: option.splits)
  have "foldl copy_field [(''name'', ?n0), (''description'', ?d0)] (?I @ ?R) =
        ?I @ [(''name'', ?n0), (''description'', ?d0)] @ ?O"
    using s1 s2 by (simp only: foldl_append append_Nil append_Nil2 n dd)
  then have copied: "foldl copy_field [(''name'', ?n0), (''description'', ?d0)] (own fm) =
        ?I @ [(''name'', ?n0), (''description'', ?d0)] @ ?O"
    using split by simp
  have O: "?O = filter (\<lambda>kv. \<not> is_array_index (fst kv) \<and>
                   fst kv \<notin> {''name'', ''description'', ''metadata''}) (own fm)"
    by (simp add: conj_commute)
  have "''metadata'' \<notin> set (obj_keys (?I @ [(''name'', ?n0), (''description'', ?d0)] @ ?O))"
    using metadata_not_index by (auto simp: obj_keys_def)
  then have "obj_set ''metadata'' v (?I @ [(''name'', ?n0), (''description'', ?d0)] @ ?O) =
        (?I @ [(''name'', ?n0), (''description'', ?d0)] @ ?O) @ [(''metadata'', v)]" for v
    using metadata_not_index by (simp add: obj_set_def)
  then show ?thesis
    unfolding newFrontmatter_def Let_def copied O [symmetric] by simp
qed












subsection \<open>Stamping an agent file\<close>


lemma addAgentMetadata_entries:
  assumes "frontmatter agent = Some fm" and "js_object (own fm)"
  shows "addAgentMetadata computeSkillContentHash agent p =
     ''---'' @ [NL] @
     serializeFrontmatter
       (filter (\<lambda>kv. is_array_index (fst kv)) (own fm) @
        [(''name'', or_empty (fm_get fm ''name'')),
         (''description'', or_empty (fm_get fm ''description''))] @
        filter (\<lambda>kv. \<not> is_array_index (fst kv) \<and>
                      fst kv \<notin> {''name'', ''description'', ''metadata''}) (own fm) @
        [(''metadata'',
          VObj (newMetadata fm p
                  (computeSkillContentHash (rawContent agent)
                     (map (\<lambda>c. if c = CHR ''_'' then CHR ''-'' else c) p))))]) @
     [NL] @ ''---'' @ [NL] @ body agent"
  by (simp add: addAgentMetadata_def Let_def assms(1) newFrontmatter_entries [OF assms(2)])

lemma needsQuoting_raw_hash: "needsQuoting (raw_hash content p)"
  by (simp add: raw_hash_def hashContent_def Let_def needsQuoting_def)

lemma quoted_raw_hash: "quoted (raw_hash content p) = [DQ] @ raw_hash content p @ [DQ]"
  by (simp add: quoted_def needsQuoting_raw_hash)

lemma quoted_samples:
  "quoted ''true'' = [DQ] @ ''true'' @ [DQ]" "quoted [] = []" "quoted ''Read'' = ''Read''"
  "quoted ''reviewer'' = ''reviewer''" "quoted ''Reviews code'' = ''Reviews code''"
  "quoted ''me'' = ''me''" "quoted ''fast'' = ''fast''" "quoted ''a'' = ''a''"
  "quoted ''b'' = ''b''" "quoted ''h'' = ''h''" "quoted ''i'' = ''i''"
  "quoted ''evil'' = ''evil''"
  by code_simp+

lemma sample_keys:
  "\<not> is_array_index ''tools''" "\<not> is_array_index ''model''" "\<not> is_array_index ''author''"
  "\<not> is_array_index ''agconf_managed''" "\<not> is_array_index ''agconf_content_hash''"
  by code_simp+





text \<open>
  In the file \<open>proto_agent\<close> the reader assigns a nested map to \<open>__proto__\<close>, which
  installs it as the prototype of the frontmatter; \<open>addAgentMetadata\<close> then reads
  \<open>name\<close> through it and writes a name that the frontmatter does not own.
\<close>

lemma inherited_name_is_written:
  "frontmatter (parseAgent json_none proto_agent ''reviewer.md'') =
     Some \<lparr> own = [(''tools'', VStr ''Read'')],
            proto = Object_installed [(''name'', ''evil'')] \<rparr> \<and>
   addAgentMetadata raw_hash (parseAgent json_none proto_agent ''reviewer.md'') ''agconf'' =
     ''---'' @ [NL] @ ''name: evil'' @ [NL] @ ''description: '' @ [NL] @ ''tools: Read'' @ [NL] @
     ''metadata:'' @ [NL] @ ''  agconf_managed: '' @ [DQ] @ ''true'' @ [DQ, NL] @
     ''  agconf_content_hash: '' @ [DQ] @ raw_hash proto_agent ''agconf'' @ [DQ, NL] @
     ''---'' @ [NL] @ ''B''"
proof -
  let ?fm = "\<lparr> own = [(''tools'', VStr ''Read'')],
                 proto = Object_installed [(''name'', ''evil'')] \<rparr>"
  let ?a = "parseAgent json_none proto_agent ''reviewer.md''"
  have p: "?a = \<lparr> relativePath = ''reviewer.md'', rawContent = proto_agent,
                   frontmatter = Some ?fm, body = ''B'' \<rparr>"
    by code_simp
  have f: "frontmatter ?a = Some ?fm" by (simp add: p)
  have w: "js_object (own ?fm)" by code_simp
  have "addAgentMetadata raw_hash ?a ''agconf'' =
     ''---'' @ [NL] @ ''name: evil'' @ [NL] @ ''description: '' @ [NL] @ ''tools: Read'' @ [NL] @
     ''metadata:'' @ [NL] @ ''  agconf_managed: '' @ [DQ] @ ''true'' @ [DQ, NL] @
     ''  agconf_content_hash: '' @ [DQ] @ raw_hash proto_agent ''agconf'' @ [DQ, NL] @
     ''---'' @ [NL] @ ''B''"
    unfolding addAgentMetadata_entries [OF f w]
    by (simp add: p fm_get_def inherited_def newMetadata_def Let_def obj_get_def obj_set_def
        obj_keys_def special_keys_not_index sample_keys serializeFrontmatter_def
        quoted_raw_hash quoted_samples)
  with f show ?thesis by simp
qed

subsection \<open>Stamping a stamped agent file\<close>

lemma addAgentMetadata_hash_once:
  "addAgentMetadata computeSkillContentHash agent p =
   addAgentMetadata
     (\<lambda>_ _. computeSkillContentHash (rawContent agent)
                (map (\<lambda>c. if c = CHR ''_'' then CHR ''-'' else c) p)) agent p"
  by (simp add: addAgentMetadata_def)

lemma rawContent_parseAgent: "rawContent (parseAgent json t relPath) = t"
  by (simp add: parseAgent_def split: prod.splits)

lemma quoted_agent_hash: "raw_hash quoted_agent ''agconf'' = ''sha256:a25b0cc54e9d''"
  by code_simp

lemma stamped_quoted_agent_hash:
  "raw_hash stamped_quoted_agent ''agconf'' = ''sha256:3d8067de4451''"
  by code_simp

lemma stamp_quoted_agent:
  "addAgentMetadata raw_hash (parseAgent json_none quoted_agent ''a.md'') ''agconf'' =
   stamped_quoted_agent"
proof -
  have "addAgentMetadata (\<lambda>_ _. ''sha256:a25b0cc54e9d'') (parseAgent json_none quoted_agent ''a.md'')
          ''agconf'' = stamped_quoted_agent"
    by code_simp
  then show ?thesis
    by (subst addAgentMetadata_hash_once) (simp add: rawContent_parseAgent quoted_agent_hash)
qed

lemma restamp_quoted_agent:
  "addAgentMetadata raw_hash (parseAgent json_none stamped_quoted_agent ''a.md'') ''agconf'' =
   restamped_quoted_agent"
proof -
  have "addAgentMetadata (\<lambda>_ _. ''sha256:3d8067de4451'')
          (parseAgent json_none stamped_quoted_agent ''a.md'') ''agconf'' = restamped_quoted_agent"
    by code_simp
  then show ?thesis
    by (subst addAgentMetadata_hash_once) (simp add: rawContent_parseAgent stamped_quoted_agent_hash)
qed

text \<open>
  C4. The file \<open>quoted_agent\<close>, whose description is \<open>'say "hi"'\<close>, is stamped, read
  back and stamped again. \<open>serializeFrontmatter\<close> writes the description \<open>say "hi"\<close>
  without quotes, as \<open>needsQuoting\<close> does not look for quote characters, and
  \<open>parseSimpleYaml\<close>, which removes one quote at either end of a value, reads it back
  as \<open>say "hi\<close>. The second stamp is not the first: the two files differ in the
  description line, which stands before the hash.
\<close>

theorem restamp_quoted_differs:
  "addAgentMetadata raw_hash (parseAgent json_none quoted_agent ''a.md'') ''agconf'' =
     stamped_quoted_agent \<and>
   frontmatter (parseAgent json_none stamped_quoted_agent ''a.md'') =
     Some \<lparr> own = [(''name'', VStr ''a''), (''description'', VStr (''say '' @ [DQ] @ ''hi'')),
                   (''metadata'', VObj [(''agconf_managed'', ''true''),
                                        (''agconf_content_hash'', ''sha256:a25b0cc54e9d'')])],
            proto = Object_prototype \<rparr> \<and>
   addAgentMetadata raw_hash (parseAgent json_none stamped_quoted_agent ''a.md'') ''agconf'' =
     restamped_quoted_agent \<and>
   addAgentMetadata raw_hash
     (parseAgent json_none
        (addAgentMetadata raw_hash (parseAgent json_none quoted_agent ''a.md'') ''agconf'')
        ''a.md'') ''agconf'' \<noteq>
   addAgentMetadata raw_hash (parseAgent json_none quoted_agent ''a.md'') ''agconf''"
proof -
  have r: "frontmatter (parseAgent json_none stamped_quoted_agent ''a.md'') =
     Some \<lparr> own = [(''name'', VStr ''a''), (''description'', VStr (''say '' @ [DQ] @ ''hi'')),
                   (''metadata'', VObj [(''agconf_managed'', ''true''),
                                        (''agconf_content_hash'', ''sha256:a25b0cc54e9d'')])],
            proto = Object_prototype \<rparr>"
    by code_simp
  have "restamped_quoted_agent \<noteq> stamped_quoted_agent"
    by (simp add: restamped_quoted_agent_def stamped_quoted_agent_def)
  with r show ?thesis
    by (simp add: stamp_quoted_agent restamp_quoted_agent)
qed

subsection \<open>The marker merge\<close>






end
